theory Spec2Isabelle
  imports Main
begin

section \<open>EcoFinds: the user-keyed application (src/app.py)\<close>

text \<open>
  The persistent store is a record of four tables, each a list of rows in insertion
  order. A request handler takes the authenticated user (if any), its inputs and the
  store, and returns either an error (the early returns that flash a failure message)
  or a response, together with the store after the request. A handler that returns
  before \<^verbatim>\<open>db.session.commit()\<close> leaves the store as it was: the request's
  session is discarded with its pending changes.

  Python integers are \<open>int\<close>; row ids and timestamps are \<open>nat\<close>; strings are
  \<open>string\<close>, so the text model covers the code points below 256. Integer columns are
  unbounded as Python's integers are: the store keeps integers in 64 bits and refuses a
  larger one when the request commits, and requests that would store such an integer
  are outside the model. So is the account table, which no handler below reads beyond
  the identity of the current user. Requests are handled one after another.
\<close>

subsection \<open>Constants\<close>

definition CATEGORIES :: "string list" where
  "CATEGORIES =
     [''Electronics'', ''Home & Kitchen'', ''Books'', ''Fashion'', ''Sports'', ''Toys'',
      ''Other'']"

subsection \<open>Models\<close>

record Product =
  p_id :: nat
  p_title :: string
  p_description :: string
  p_category :: string
  p_price_rupees :: int
  p_image_url :: "string option"
  p_seller_id :: nat
  p_created_at :: nat

record CartItem =
  ci_id :: nat
  ci_user_id :: nat
  ci_product_id :: nat
  ci_quantity :: int

record Order =
  o_id :: nat
  o_user_id :: nat
  o_created_at :: nat

record OrderItem =
  oi_id :: nat
  oi_order_id :: nat
  oi_product_id :: nat
  oi_title :: string
  oi_price_rupees :: int
  oi_quantity :: int

record db =
  products :: "Product list"
  cart_items :: "CartItem list"
  orders :: "Order list"
  order_items :: "OrderItem list"

text \<open>
  Python exceptions that the modelled code can raise, and the ways a request fails:
  the early returns of the handlers, the 404 of \<^verbatim>\<open>get_or_404\<close>, and an
  exception that no handler catches.
\<close>

datatype py_exn = ValueError | AttributeError

datatype error =
    LoginRequired
  | NotFound
  | NotOwner
  | MissingField
  | InvalidCategory
  | EmptyCart
  | ServerError py_exn

datatype response =
    Redirect string
  | Render string
  | CartPage "CartItem list" int

datatype http_method = GET | POST

type_synonym form = "(string \<times> string) list"

type_synonym result = "(error + response) \<times> db"

subsection \<open>Strings, forms and keys\<close>

text \<open>\<^verbatim>\<open>str.isspace\<close> on the code points below 256.\<close>

definition is_space :: "char \<Rightarrow> bool" where
  "is_space c =
     (let n = (of_char c :: nat)
      in (9 \<le> n \<and> n \<le> 13) \<or> (28 \<le> n \<and> n \<le> 32) \<or> n = 133 \<or> n = 160)"

definition strip :: "string \<Rightarrow> string" where
  "strip s = rev (dropWhile is_space (rev (dropWhile is_space s)))"

definition is_digit :: "char \<Rightarrow> bool" where
  "is_digit c = (let n = (of_char c :: nat) in 48 \<le> n \<and> n \<le> 57)"

definition digit_val :: "char \<Rightarrow> int" where
  "digit_val c = int (of_char c) - 48"

text \<open>
  \<^verbatim>\<open>int(value)\<close> on a string, base 10: surrounding whitespace is dropped, one sign is
  allowed, then decimal digits, where single underscores may separate digits; anything
  else raises \<^verbatim>\<open>ValueError\<close>. The whitespace of \<^verbatim>\<open>int\<close> is narrower than that of
  \<^verbatim>\<open>str.strip\<close>: the separators 28 to 31 are not dropped. The interpreter's limit on
  the number of digits is not modelled.
\<close>

definition is_int_space :: "char \<Rightarrow> bool" where
  "is_int_space c =
     (let n = (of_char c :: nat)
      in (9 \<le> n \<and> n \<le> 13) \<or> n = 32 \<or> n = 133 \<or> n = 160)"

fun digits_from :: "int \<Rightarrow> string \<Rightarrow> int option" where
  "digits_from acc [] = Some acc"
| "digits_from acc [c] = (if is_digit c then Some (acc * 10 + digit_val c) else None)"
| "digits_from acc (c # d # ds) =
     (if c = CHR ''_''
      then (if is_digit d then digits_from (acc * 10 + digit_val d) ds else None)
      else if is_digit c then digits_from (acc * 10 + digit_val c) (d # ds)
      else None)"

definition digit_part :: "string \<Rightarrow> int option" where
  "digit_part s =
     (case s of
        [] \<Rightarrow> None
      | c # cs \<Rightarrow> (if is_digit c then digits_from (digit_val c) cs else None))"

definition py_int :: "string \<Rightarrow> py_exn + int" where
  "py_int s =
     (case (case rev (dropWhile is_int_space (rev (dropWhile is_int_space s))) of
              [] \<Rightarrow> None
            | c # cs \<Rightarrow>
                (if c = CHR ''-'' then map_option uminus (digit_part cs)
                 else if c = CHR ''+'' then digit_part cs
                 else digit_part (c # cs))) of
        None \<Rightarrow> Inl ValueError
      | Some n \<Rightarrow> Inr n)"

text \<open>
  \<^verbatim>\<open>parse_int\<close>: the \<^verbatim>\<open>try\<close> around \<^verbatim>\<open>int(value)\<close> with
  \<^verbatim>\<open>except Exception\<close>. The result is a sum so that an exception leaving the
  function would be a value \<open>Inl\<close>.
\<close>

definition parse_int :: "string \<Rightarrow> int \<Rightarrow> py_exn + int" where
  "parse_int v dflt = (case py_int v of Inr n \<Rightarrow> Inr n | Inl e \<Rightarrow> Inr dflt)"

text \<open>\<^verbatim>\<open>request.form.get(key, default)\<close>: the first value submitted under the key.\<close>

definition form_get :: "form \<Rightarrow> string \<Rightarrow> string \<Rightarrow> string" where
  "form_get f k dflt = (case map_of f k of Some v \<Rightarrow> v | None \<Rightarrow> dflt)"

text \<open>
  The integer primary key of a new row in the SQLite store both applications use by
  default: one more than the largest key in the table, and 1 in an empty table.
\<close>

definition next_id :: "nat list \<Rightarrow> nat" where
  "next_id ids = Suc (fold max ids 0)"

text \<open>\<^verbatim>\<open>Product.query.get(product_id)\<close>, also the lazy load behind \<^verbatim>\<open>item.product\<close>.\<close>

definition get_product :: "db \<Rightarrow> nat \<Rightarrow> Product option" where
  "get_product s k = find (\<lambda>p. p_id p = k) (products s)"

definition get_cart_item :: "db \<Rightarrow> nat \<Rightarrow> CartItem option" where
  "get_cart_item s k = find (\<lambda>i. ci_id i = k) (cart_items s)"

text \<open>\<^verbatim>\<open>CartItem.query.filter_by(user_id=current_user.id).all()\<close>\<close>

definition user_cart :: "db \<Rightarrow> nat \<Rightarrow> CartItem list" where
  "user_cart s u = filter (\<lambda>i. ci_user_id i = u) (cart_items s)"

definition login_required ::
  "nat option \<Rightarrow> 's \<Rightarrow> (nat \<Rightarrow> (error + 'r) \<times> 's) \<Rightarrow> (error + 'r) \<times> 's" where
  "login_required current_user s h =
     (case current_user of None \<Rightarrow> (Inl LoginRequired, s) | Some u \<Rightarrow> h u)"

subsection \<open>Product CRUD\<close>

definition product_new :: "nat option \<Rightarrow> nat \<Rightarrow> http_method \<Rightarrow> form \<Rightarrow> db \<Rightarrow> result" where
  "product_new current_user now method f s =
     login_required current_user s (\<lambda>uid.
       if method = POST then
         (let title = strip (form_get f ''title'' '''');
              description = strip (form_get f ''description'' '''');
              category = strip (form_get f ''category'' '''')
          in case parse_int (form_get f ''price'' ''0'') 0 of
               Inl e \<Rightarrow> (Inl (ServerError e), s)
             | Inr price_rupees \<Rightarrow>
                 (let image_url = strip (form_get f ''image_url'' '''')
                  in if title = [] \<or> category = [] then (Inl MissingField, s)
                     else if category \<notin> set CATEGORIES then (Inl InvalidCategory, s)
                     else (Inr (Redirect ''my_listings''),
                           s\<lparr>products := products s @
                              [\<lparr>p_id = next_id (map p_id (products s)),
                                p_title = title,
                                p_description = description,
                                p_category = category,
                                p_price_rupees = price_rupees,
                                p_image_url =
                                  (if image_url \<noteq> [] then Some image_url else None),
                                p_seller_id = uid,
                                p_created_at = now\<rparr>]\<rparr>)))
       else (Inr (Render ''product_form.html''), s))"

text \<open>
  In \<^verbatim>\<open>product_edit\<close> the title and the description are assigned before the category
  is checked; when the check fails the handler returns without committing, so the
  assignments never reach the store.
\<close>

definition product_edit :: "nat option \<Rightarrow> nat \<Rightarrow> http_method \<Rightarrow> form \<Rightarrow> db \<Rightarrow> result" where
  "product_edit current_user product_id method f s =
     login_required current_user s (\<lambda>uid.
       case get_product s product_id of
         None \<Rightarrow> (Inl NotFound, s)
       | Some product \<Rightarrow>
           if p_seller_id product \<noteq> uid then (Inl NotOwner, s)
           else if method = POST then
             (let title = strip (form_get f ''title'' '''');
                  description = strip (form_get f ''description'' '''');
                  category = strip (form_get f ''category'' '''')
              in if category \<notin> set CATEGORIES then (Inl InvalidCategory, s)
                 else
                   (case parse_int (form_get f ''price'' ''0'') 0 of
                      Inl e \<Rightarrow> (Inl (ServerError e), s)
                    | Inr price_rupees \<Rightarrow>
                        (let image_url = strip (form_get f ''image_url'' '''')
                         in (Inr (Redirect ''my_listings''),
                             s\<lparr>products :=
                                 map (\<lambda>p. if p_id p = p_id product
                                           then p\<lparr>p_title := title,
                                                  p_description := description,
                                                  p_category := category,
                                                  p_price_rupees := price_rupees,
                                                  p_image_url :=
                                                    (if image_url \<noteq> [] then Some image_url
                                                     else None)\<rparr>
                                           else p)
                                   (products s)\<rparr>))))
           else (Inr (Render ''product_form.html''), s))"

text \<open>
  \<^verbatim>\<open>db.session.delete(product)\<close> removes the product row only: no relationship of
  \<^verbatim>\<open>Product\<close> cascades, and the store does not enforce the foreign keys of the rows
  that reference it. The cart and checkout handlers expect such rows: they test
  \<^verbatim>\<open>item.product\<close> before they use it.
\<close>

definition product_delete :: "nat option \<Rightarrow> nat \<Rightarrow> db \<Rightarrow> result" where
  "product_delete current_user product_id s =
     login_required current_user s (\<lambda>uid.
       case get_product s product_id of
         None \<Rightarrow> (Inl NotFound, s)
       | Some product \<Rightarrow>
           if p_seller_id product \<noteq> uid then (Inl NotOwner, s)
           else (Inr (Redirect ''my_listings''),
                 s\<lparr>products := filter (\<lambda>p. p_id p \<noteq> p_id product) (products s)\<rparr>))"

subsection \<open>Cart and checkout\<close>

text \<open>
  \<^verbatim>\<open>sum(i.product.price_rupees * i.quantity for i in items if i.product)\<close>: the
  attribute read on a missing product is the error branch of \<open>price_of\<close>; the
  generator's filter decides whether it is reached.
\<close>

definition price_of :: "Product option \<Rightarrow> py_exn + int" where
  "price_of p = (case p of None \<Rightarrow> Inl AttributeError | Some q \<Rightarrow> Inr (p_price_rupees q))"

fun sum_items :: "db \<Rightarrow> CartItem list \<Rightarrow> int \<Rightarrow> py_exn + int" where
  "sum_items s [] acc = Inr acc"
| "sum_items s (i # items) acc =
     (if get_product s (ci_product_id i) \<noteq> None
      then (case price_of (get_product s (ci_product_id i)) of
              Inl e \<Rightarrow> Inl e
            | Inr pr \<Rightarrow> sum_items s items (acc + pr * ci_quantity i))
      else sum_items s items acc)"

definition cart_view :: "nat option \<Rightarrow> db \<Rightarrow> result" where
  "cart_view current_user s =
     login_required current_user s (\<lambda>uid.
       let items = user_cart s uid
       in case sum_items s items 0 of
            Inl e \<Rightarrow> (Inl (ServerError e), s)
          | Inr cart_total \<Rightarrow> (Inr (CartPage items cart_total), s))"

definition cart_add :: "nat option \<Rightarrow> nat \<Rightarrow> db \<Rightarrow> result" where
  "cart_add current_user product_id s =
     login_required current_user s (\<lambda>uid.
       case get_product s product_id of
         None \<Rightarrow> (Inl NotFound, s)
       | Some product \<Rightarrow>
           (case filter (\<lambda>i. ci_user_id i = uid \<and> ci_product_id i = p_id product)
                   (cart_items s) of
              item # _ \<Rightarrow>
                (Inr (Redirect ''cart_view''),
                 s\<lparr>cart_items :=
                     map (\<lambda>i. if ci_id i = ci_id item
                               then i\<lparr>ci_quantity := ci_quantity item + 1\<rparr> else i)
                       (cart_items s)\<rparr>)
            | [] \<Rightarrow>
                (Inr (Redirect ''cart_view''),
                 s\<lparr>cart_items := cart_items s @
                     [\<lparr>ci_id = next_id (map ci_id (cart_items s)),
                       ci_user_id = uid,
                       ci_product_id = p_id product,
                       ci_quantity = 1\<rparr>]\<rparr>)))"

definition cart_remove :: "nat option \<Rightarrow> nat \<Rightarrow> db \<Rightarrow> result" where
  "cart_remove current_user item_id s =
     login_required current_user s (\<lambda>uid.
       case get_cart_item s item_id of
         None \<Rightarrow> (Inl NotFound, s)
       | Some item \<Rightarrow>
           if ci_user_id item \<noteq> uid then (Inl NotOwner, s)
           else (Inr (Redirect ''cart_view''),
                 s\<lparr>cart_items := filter (\<lambda>i. ci_id i \<noteq> ci_id item) (cart_items s)\<rparr>))"

text \<open>
  The loop of \<^verbatim>\<open>checkout\<close> over the rows read at its start: a row whose product is
  gone is passed over by \<^verbatim>\<open>continue\<close>; any other row adds one order item and is
  deleted from the cart.
\<close>

fun checkout_loop :: "nat \<Rightarrow> CartItem list \<Rightarrow> db \<Rightarrow> db" where
  "checkout_loop order_id [] s = s"
| "checkout_loop order_id (item # items) s =
     (case get_product s (ci_product_id item) of
        None \<Rightarrow> checkout_loop order_id items s
      | Some product \<Rightarrow>
          checkout_loop order_id items
            (s\<lparr>order_items := order_items s @
                 [\<lparr>oi_id = next_id (map oi_id (order_items s)),
                   oi_order_id = order_id,
                   oi_product_id = ci_product_id item,
                   oi_title = p_title product,
                   oi_price_rupees = p_price_rupees product,
                   oi_quantity = ci_quantity item\<rparr>],
               cart_items := filter (\<lambda>i. ci_id i \<noteq> ci_id item) (cart_items s)\<rparr>))"

definition checkout :: "nat option \<Rightarrow> nat \<Rightarrow> db \<Rightarrow> result" where
  "checkout current_user now s =
     login_required current_user s (\<lambda>uid.
       let items = user_cart s uid
       in if items = [] then (Inl EmptyCart, s)
          else
            (let order = \<lparr>o_id = next_id (map o_id (orders s)),
                          o_user_id = uid,
                          o_created_at = now\<rparr>
             in (Inr (Redirect ''orders''),
                 checkout_loop (o_id order) items (s\<lparr>orders := orders s @ [order]\<rparr>))))"

subsection \<open>Requests in sequence\<close>

datatype request =
    ProductNew "nat option" nat http_method form
  | ProductEdit "nat option" nat http_method form
  | ProductDelete "nat option" nat
  | CartView "nat option"
  | CartAdd "nat option" nat
  | CartRemove "nat option" nat
  | Checkout "nat option" nat

fun handle :: "request \<Rightarrow> db \<Rightarrow> result" where
  "handle (ProductNew cu now m f) s = product_new cu now m f s"
| "handle (ProductEdit cu k m f) s = product_edit cu k m f s"
| "handle (ProductDelete cu k) s = product_delete cu k s"
| "handle (CartView cu) s = cart_view cu s"
| "handle (CartAdd cu k) s = cart_add cu k s"
| "handle (CartRemove cu k) s = cart_remove cu k s"
| "handle (Checkout cu now) s = checkout cu now s"

fun run :: "request list \<Rightarrow> db \<Rightarrow> db" where
  "run [] s = s"
| "run (r # rs) s = run rs (snd (handle r s))"

definition empty_db :: db where
  "empty_db = \<lparr>products = [], cart_items = [], orders = [], order_items = []\<rparr>"

section \<open>EcoFinds: the session-keyed application (src/ecofinds-backend/app.py)\<close>

text \<open>
  Here the cart is a list of dictionaries kept in the browser session, and prices are
  Python floats. The type of floats is the parameter \<open>'f\<close>; the float operations the
  code uses come as a record of functions, so nothing is assumed about rounding:
  \<^verbatim>\<open>float(n)\<close> on an integer, \<^verbatim>\<open>float(s)\<close> on a string (which may raise),
  \<^verbatim>\<open>price * quantity\<close>, and \<^verbatim>\<open>sum\<close> over the products (Python's integer 0
  when there is none).
\<close>

record 'f float_ops =
  float_of_int :: "int \<Rightarrow> 'f"
  float_of_str :: "string \<Rightarrow> py_exn + 'f"
  mul_int :: "'f \<Rightarrow> int \<Rightarrow> 'f"
  sum_floats :: "'f list \<Rightarrow> 'f"

definition CATEGORIES_b :: "string list" where
  "CATEGORIES_b = [''Home'', ''Fashion'', ''Electronics'', ''Outdoors'', ''Beauty'', ''Other'']"

record 'f Product_b =
  bp_id :: nat
  bp_name :: string
  bp_description :: string
  bp_price :: 'f
  bp_category :: string
  bp_created_at :: nat
  bp_seller_id :: nat

record 'f Order_b =
  bo_id :: nat
  bo_user_id :: nat
  bo_total :: 'f
  bo_created_at :: nat

record 'f OrderItem_b =
  boi_id :: nat
  boi_order_id :: nat
  boi_product_id :: nat
  boi_quantity :: int
  boi_price :: 'f

text \<open>
  One entry of the session cart: the dictionary with the keys \<^verbatim>\<open>id\<close>, \<^verbatim>\<open>name\<close>,
  \<^verbatim>\<open>price\<close> and \<^verbatim>\<open>quantity\<close> that \<^verbatim>\<open>add_to_cart\<close> builds.
\<close>

record 'f cart_entry =
  ce_id :: nat
  ce_name :: string
  ce_price :: 'f
  ce_quantity :: int

text \<open>The three tables and the cart of the session that sends the requests.\<close>

record 'f store_b =
  b_products :: "'f Product_b list"
  b_orders :: "'f Order_b list"
  b_order_items :: "'f OrderItem_b list"
  b_cart :: "'f cart_entry list"

datatype 'f response_b =
    Redirected string
  | Rendered string
  | CartPage_b "'f cart_entry list" 'f

text \<open>
  \<^verbatim>\<open>product_form\<close> converts the price with \<^verbatim>\<open>float(request.form.get("price") or 0)\<close>
  before it looks at the name: a missing or empty field gives \<^verbatim>\<open>float(0)\<close>, any
  other text goes to \<^verbatim>\<open>float\<close>, whose \<^verbatim>\<open>ValueError\<close> nothing catches. The category
  is read with the default \<^verbatim>\<open>"Other"\<close> and stored as it comes.
\<close>

definition product_form ::
  "'f float_ops \<Rightarrow> nat option \<Rightarrow> nat \<Rightarrow> http_method \<Rightarrow> form \<Rightarrow> 'f store_b \<Rightarrow>
   (error + 'f response_b) \<times> 'f store_b" where
  "product_form fl current_user now method f s =
     login_required current_user s (\<lambda>uid.
       if method = POST then
         (let name = strip (form_get f ''name'' '''');
              description = strip (form_get f ''description'' '''')
          in case (case map_of f ''price'' of
                     None \<Rightarrow> Inr (float_of_int fl 0)
                   | Some v \<Rightarrow> if v = [] then Inr (float_of_int fl 0) else float_of_str fl v) of
               Inl e \<Rightarrow> (Inl (ServerError e), s)
             | Inr price \<Rightarrow>
                 (let category = form_get f ''category'' ''Other''
                  in if name = [] then (Inl MissingField, s)
                     else (Inr (Redirected ''my_listings''),
                           s\<lparr>b_products := b_products s @
                              [\<lparr>bp_id = next_id (map bp_id (b_products s)),
                                bp_name = name,
                                bp_description = description,
                                bp_price = price,
                                bp_category = category,
                                bp_created_at = now,
                                bp_seller_id = uid\<rparr>]\<rparr>)))
       else (Inr (Rendered ''product_form.html''), s))"

text \<open>
  The \<^verbatim>\<open>for\<close> \<^verbatim>\<open>else\<close> of \<^verbatim>\<open>add_to_cart\<close>: the first entry with the product's id
  has its quantity raised and the loop stops; \<open>None\<close> is the loop running to its end.
\<close>

fun merge_quantity :: "nat \<Rightarrow> 'f cart_entry list \<Rightarrow> 'f cart_entry list option" where
  "merge_quantity k [] = None"
| "merge_quantity k (item # cart) =
     (if ce_id item = k then Some (item\<lparr>ce_quantity := ce_quantity item + 1\<rparr> # cart)
      else map_option ((#) item) (merge_quantity k cart))"

definition add_to_cart ::
  "nat \<Rightarrow> 'f store_b \<Rightarrow> (error + 'f response_b) \<times> 'f store_b" where
  "add_to_cart product_id s =
     (case find (\<lambda>p. bp_id p = product_id) (b_products s) of
        None \<Rightarrow> (Inl NotFound, s)
      | Some product \<Rightarrow>
          (Inr (Redirected ''cart''),
           s\<lparr>b_cart :=
               (case merge_quantity (bp_id product) (b_cart s) of
                  Some cart \<Rightarrow> cart
                | None \<Rightarrow> b_cart s @
                    [\<lparr>ce_id = bp_id product,
                      ce_name = bp_name product,
                      ce_price = bp_price product,
                      ce_quantity = 1\<rparr>])\<rparr>))"

definition remove_from_cart ::
  "nat \<Rightarrow> 'f store_b \<Rightarrow> (error + 'f response_b) \<times> 'f store_b" where
  "remove_from_cart product_id s =
     (Inr (Redirected ''cart''),
      s\<lparr>b_cart := filter (\<lambda>item. ce_id item \<noteq> product_id) (b_cart s)\<rparr>)"

text \<open>
  \<^verbatim>\<open>sum(item["price"] * item.get("quantity", 1) for item in cart)\<close>, which both
  \<^verbatim>\<open>cart\<close> and \<^verbatim>\<open>checkout\<close> compute. Every entry that \<^verbatim>\<open>add_to_cart\<close> builds has
  a quantity, so the default of \<^verbatim>\<open>get\<close> is never used.
\<close>

definition cart_sum :: "'f float_ops \<Rightarrow> 'f cart_entry list \<Rightarrow> 'f" where
  "cart_sum fl cart =
     sum_floats fl (map (\<lambda>item. mul_int fl (ce_price item) (ce_quantity item)) cart)"

definition cart_b ::
  "'f float_ops \<Rightarrow> 'f store_b \<Rightarrow> (error + 'f response_b) \<times> 'f store_b" where
  "cart_b fl s = (Inr (CartPage_b (b_cart s) (cart_sum fl (b_cart s))), s)"

text \<open>
  The loop of \<^verbatim>\<open>checkout\<close> that adds one order item for each entry of the session
  cart, and \<^verbatim>\<open>checkout\<close> itself, which ends with \<^verbatim>\<open>save_cart([])\<close>.
\<close>

fun add_order_items :: "nat \<Rightarrow> 'f cart_entry list \<Rightarrow> 'f store_b \<Rightarrow> 'f store_b" where
  "add_order_items order_id [] s = s"
| "add_order_items order_id (item # cart) s =
     add_order_items order_id cart
       (s\<lparr>b_order_items := b_order_items s @
            [\<lparr>boi_id = next_id (map boi_id (b_order_items s)),
              boi_order_id = order_id,
              boi_product_id = ce_id item,
              boi_quantity = ce_quantity item,
              boi_price = ce_price item\<rparr>]\<rparr>)"

definition checkout_b ::
  "'f float_ops \<Rightarrow> nat option \<Rightarrow> nat \<Rightarrow> 'f store_b \<Rightarrow>
   (error + 'f response_b) \<times> 'f store_b" where
  "checkout_b fl current_user now s =
     login_required current_user s (\<lambda>uid.
       let cart = b_cart s
       in if cart = [] then (Inl EmptyCart, s)
          else
            (let order = \<lparr>bo_id = next_id (map bo_id (b_orders s)),
                          bo_user_id = uid,
                          bo_total = cart_sum fl cart,
                          bo_created_at = now\<rparr>
             in (Inr (Redirected ''orders''),
                 (add_order_items (bo_id order) cart
                    (s\<lparr>b_orders := b_orders s @ [order]\<rparr>))\<lparr>b_cart := []\<rparr>)))"

datatype request_b =
    ProductForm "nat option" nat http_method form
  | AddToCart nat
  | RemoveFromCart nat
  | ViewCart
  | Checkout_b "nat option" nat

fun handle_b ::
  "'f float_ops \<Rightarrow> request_b \<Rightarrow> 'f store_b \<Rightarrow> (error + 'f response_b) \<times> 'f store_b" where
  "handle_b fl (ProductForm cu now m f) s = product_form fl cu now m f s"
| "handle_b fl (AddToCart k) s = add_to_cart k s"
| "handle_b fl (RemoveFromCart k) s = remove_from_cart k s"
| "handle_b fl ViewCart s = cart_b fl s"
| "handle_b fl (Checkout_b cu now) s = checkout_b fl cu now s"

fun run_b :: "'f float_ops \<Rightarrow> request_b list \<Rightarrow> 'f store_b \<Rightarrow> 'f store_b" where
  "run_b fl [] s = s"
| "run_b fl (r # rs) s = run_b fl rs (snd (handle_b fl r s))"

section \<open>Specification-level definitions\<close>

subsection \<open>The cart invariant\<close>

text \<open>
  At most one cart entry for each pair of owner and product, and every quantity at least
  one. In the session-keyed application the session is the owner, so the entries of one
  cart have distinct product ids.
\<close>

definition cart_key :: "CartItem \<Rightarrow> nat \<times> nat" where
  "cart_key i = (ci_user_id i, ci_product_id i)"

definition cart_inv :: "db \<Rightarrow> bool" where
  "cart_inv s =
     (distinct (map cart_key (cart_items s)) \<and> list_all (\<lambda>i. 1 \<le> ci_quantity i) (cart_items s))"

definition cart_inv_b :: "'f store_b \<Rightarrow> bool" where
  "cart_inv_b t =
     (distinct (map ce_id (b_cart t)) \<and> list_all (\<lambda>e. 1 \<le> ce_quantity e) (b_cart t))"

definition entries_for :: "db \<Rightarrow> nat \<Rightarrow> nat \<Rightarrow> CartItem list" where
  "entries_for s u k = filter (\<lambda>i. ci_user_id i = u \<and> ci_product_id i = k) (cart_items s)"

definition entries_for_b :: "'f store_b \<Rightarrow> nat \<Rightarrow> 'f cart_entry list" where
  "entries_for_b t k = filter (\<lambda>e. ce_id e = k) (b_cart t)"

subsection \<open>Stale cart entries and amounts\<close>

text \<open>
  An entry is stale when its product is no longer in the store. What one cart entry
  counts for is the product's price as the store has it now, times the quantity, and
  nothing when the entry is stale.
\<close>

definition all_products_missing :: "db \<Rightarrow> nat \<Rightarrow> bool" where
  "all_products_missing s u =
     list_all (\<lambda>i. get_product s (ci_product_id i) = None) (user_cart s u)"

definition entry_amount :: "db \<Rightarrow> CartItem \<Rightarrow> int" where
  "entry_amount s i =
     (case get_product s (ci_product_id i) of
        None \<Rightarrow> 0
      | Some p \<Rightarrow> p_price_rupees p * ci_quantity i)"

subsection \<open>The cart total as the specification words it\<close>


definition get_product_b :: "'f store_b \<Rightarrow> nat \<Rightarrow> 'f Product_b option" where
  "get_product_b t k = find (\<lambda>p. bp_id p = k) (b_products t)"


text \<open>
  The invariant behind the session cart's total: every entry names a product in the
  store and carries that product's price.
\<close>

definition cart_priced :: "'f store_b \<Rightarrow> bool" where
  "cart_priced t =
     list_all
       (\<lambda>e. case get_product_b t (ce_id e) of
               None \<Rightarrow> False
             | Some p \<Rightarrow> bp_price p = ce_price e)
       (b_cart t)"

subsection \<open>Order lines as the specification words them\<close>

text \<open>
  What an order item records apart from its own id, and the lines the specification
  expects of a checkout: one for each entry whose product exists, with the title and the
  price the product has in the store at that moment and the quantity of the entry.
\<close>

definition line_data :: "OrderItem \<Rightarrow> nat \<times> nat \<times> string \<times> int \<times> int" where
  "line_data l = (oi_order_id l, oi_product_id l, oi_title l, oi_price_rupees l, oi_quantity l)"

definition spec_lines ::
  "nat \<Rightarrow> db \<Rightarrow> CartItem list \<Rightarrow> (nat \<times> nat \<times> string \<times> int \<times> int) list" where
  "spec_lines oid s items =
     map (\<lambda>i. (oid, ci_product_id i,
                p_title (the (get_product s (ci_product_id i))),
                p_price_rupees (the (get_product s (ci_product_id i))),
                ci_quantity i))
       (filter (\<lambda>i. get_product s (ci_product_id i) \<noteq> None) items)"

definition line_data_b :: "'f OrderItem_b \<Rightarrow> nat \<times> nat \<times> int \<times> 'f" where
  "line_data_b l = (boi_order_id l, boi_product_id l, boi_quantity l, boi_price l)"

definition spec_lines_b :: "nat \<Rightarrow> 'f store_b \<Rightarrow> (nat \<times> nat \<times> int \<times> 'f) list" where
  "spec_lines_b oid t =
     map (\<lambda>e. (oid, ce_id e, ce_quantity e, bp_price (the (get_product_b t (ce_id e)))))
       (filter (\<lambda>e. get_product_b t (ce_id e) \<noteq> None) (b_cart t))"

section \<open>Concrete runs\<close>

text \<open>
  Forms, requests and the stores they lead to from the empty store, used to evaluate
  the handlers. \<open>int_ops\<close> is the instance of the float interface with exact integer
  arithmetic, which is how floats behave on the small whole prices used here.
\<close>

definition int_ops :: "int float_ops" where
  "int_ops =
     \<lparr>float_of_int = (\<lambda>n. n), float_of_str = py_int, mul_int = (\<lambda>x n. x * n),
      sum_floats = sum_list\<rparr>"

definition empty_store_b :: "'f store_b" where
  "empty_store_b = \<lparr>b_products = [], b_orders = [], b_order_items = [], b_cart = []\<rparr>"

subsection \<open>User-keyed application\<close>

definition bottle_form :: form where
  "bottle_form = [(''title'', ''Bottle''), (''category'', ''Other''), (''price'', ''10'')]"

definition jar_form :: form where
  "jar_form = [(''title'', ''Jar''), (''category'', ''Home & Kitchen''), (''price'', ''4'')]"

definition reprice_form :: form where
  "reprice_form = [(''title'', ''Bottle''), (''category'', ''Other''), (''price'', ''25'')]"

definition free_form :: form where
  "free_form = [(''title'', ''Chair''), (''category'', ''Other''), (''price'', ''free'')]"

definition bottle :: Product where
  "bottle =
     \<lparr>p_id = 1, p_title = ''Bottle'', p_description = [], p_category = ''Other'',
      p_price_rupees = 10, p_image_url = None, p_seller_id = 1, p_created_at = 0\<rparr>"

text \<open>User 1 has listed a bottle and user 2 has put it into the cart.\<close>

definition db_listed :: db where
  "db_listed = run [ProductNew (Some 1) 0 POST bottle_form, CartAdd (Some 2) 1] empty_db"

text \<open>Then the seller has deleted the bottle.\<close>

definition db_stale :: db where
  "db_stale = run [ProductDelete (Some 1) 1] db_listed"

text \<open>User 2 holds a bottle and a jar in the cart, and the jar has been deleted.\<close>

definition db_mixed :: db where
  "db_mixed =
     run [ProductNew (Some 1) 0 POST bottle_form, ProductNew (Some 1) 0 POST jar_form,
          CartAdd (Some 2) 1, CartAdd (Some 2) 2, ProductDelete (Some 1) 2] empty_db"


definition cart_session :: "request list" where
  "cart_session =
     [CartAdd (Some 3) 1, CartAdd (Some 3) 1, CartAdd (Some 2) 1, CartRemove (Some 3) 2,
      ProductDelete (Some 1) 1, Checkout (Some 2) 9]"

definition later_requests :: "request list" where
  "later_requests =
     [ProductEdit (Some 1) 1 POST reprice_form, CartAdd (Some 3) 1, ProductDelete (Some 1) 1,
      Checkout (Some 3) 12]"

subsection \<open>Session-keyed application\<close>

definition bottle_form_b :: form where
  "bottle_form_b = [(''name'', ''Bottle''), (''price'', ''10''), (''category'', ''Other'')]"

definition jar_form_b :: form where
  "jar_form_b = [(''name'', ''Jar''), (''price'', ''10''), (''category'', ''Home'')]"

definition lamp_form_b :: form where
  "lamp_form_b = [(''name'', ''Lamp''), (''category'', ''Weapons'')]"

definition bottle_b :: "int Product_b" where
  "bottle_b =
     \<lparr>bp_id = 1, bp_name = ''Bottle'', bp_description = [], bp_price = 10,
      bp_category = ''Other'', bp_created_at = 0, bp_seller_id = 1\<rparr>"

definition store_listed_b :: "int store_b" where
  "store_listed_b = run_b int_ops [ProductForm (Some 1) 0 POST bottle_form_b] empty_store_b"

definition store_bottle_cart :: "int store_b" where
  "store_bottle_cart =
     run_b int_ops [ProductForm (Some 1) 0 POST bottle_form_b, AddToCart 1] empty_store_b"

definition store_jar_cart :: "int store_b" where
  "store_jar_cart =
     run_b int_ops [ProductForm (Some 1) 0 POST jar_form_b, AddToCart 1] empty_store_b"

definition cart_session_b :: "request_b list" where
  "cart_session_b =
     [AddToCart 1, AddToCart 1, RemoveFromCart 1, AddToCart 1, Checkout_b (Some 2) 9]"

section \<open>Properties\<close>

subsection \<open>Checkout of an empty cart\<close>

text \<open>
  C5. For every owner with an empty cart, checkout fails with EmptyCart and returns the
  store exactly as it was, so no Order row is created. This holds in the user-keyed
  application, where the cart is the owner's rows of the cart table, and in the
  session-keyed one, where it is the list held in the session.
\<close>

theorem c5_checkout_empty_cart:
  "(user_cart s u = [] \<longrightarrow> checkout (Some u) now s = (Inl EmptyCart, s)) \<and>
   (b_cart t = [] \<longrightarrow> checkout_b fl (Some u) now t = (Inl EmptyCart, t))"
  by (simp add: checkout_def checkout_b_def login_required_def)

theorem c5_checkout_empty_cart_witness:
  "user_cart db_listed 1 = [] \<and>
   checkout (Some 1) 7 db_listed = (Inl EmptyCart, db_listed) \<and>
   b_cart (empty_store_b :: int store_b) = [] \<and>
   checkout_b int_ops (Some 1) 7 empty_store_b = (Inl EmptyCart, empty_store_b)"
proof -
  have h1: "user_cart db_listed 1 = []"
    by code_simp
  have h2: "b_cart (empty_store_b :: int store_b) = []"
    by (simp add: empty_store_b_def)
  from c5_checkout_empty_cart [of db_listed 1 7 "empty_store_b :: int store_b" int_ops] h1 h2
  show ?thesis by simp
qed

subsection \<open>Only the owner edits or deletes a product\<close>

text \<open>
  C9. For every product in the store and every user who is not its seller, both
  \<^verbatim>\<open>product_edit\<close> (with any method and form) and \<^verbatim>\<open>product_delete\<close> fail with
  NotOwner and return the store as it was: the product keeps all its fields, its seller
  included.
\<close>

theorem c9_not_owner_rejected:
  "get_product s k = Some p \<Longrightarrow> p_seller_id p \<noteq> u \<Longrightarrow>
   product_edit (Some u) k m f s = (Inl NotOwner, s) \<and>
   product_delete (Some u) k s = (Inl NotOwner, s)"
  by (simp add: product_edit_def product_delete_def login_required_def)

theorem c9_not_owner_rejected_witness:
  "get_product db_listed 1 = Some bottle \<and> p_seller_id bottle \<noteq> 2 \<and>
   product_edit (Some 2) 1 POST [(''title'', ''Mine''), (''category'', ''Toys'')] db_listed
     = (Inl NotOwner, db_listed) \<and>
   product_delete (Some 2) 1 db_listed = (Inl NotOwner, db_listed)"
proof -
  have h1: "get_product db_listed 1 = Some bottle"
    by code_simp
  have h2: "p_seller_id bottle \<noteq> 2"
    by (simp add: bottle_def)
  from c9_not_owner_rejected [OF h1 h2] h1 h2 show ?thesis
    by simp
qed

subsection \<open>Keys and lookups\<close>

lemma fold_max_ge: "a \<le> fold max xs (a::nat)"
  by (induction xs arbitrary: a) (auto intro: order_trans [OF max.cobounded2])

lemma fold_max_mem: "x \<in> set xs \<Longrightarrow> x \<le> fold max xs (a::nat)"
proof (induction xs arbitrary: a)
  case Nil
  then show ?case by simp
next
  case (Cons y ys)
  show ?case
  proof (cases "x = y")
    case True
    have "y \<le> max y a" by simp
    also have "\<dots> \<le> fold max ys (max y a)" by (rule fold_max_ge)
    finally show ?thesis using True by simp
  next
    case False
    with Cons.prems have "x \<in> set ys" by simp
    then show ?thesis using Cons.IH by simp
  qed
qed

lemma next_id_fresh: "x \<in> set ids \<Longrightarrow> x < next_id ids"
  by (simp add: next_id_def fold_max_mem less_Suc_eq_le)

lemma find_id: "find (\<lambda>p. f p = k) xs = Some p \<Longrightarrow> f p = k \<and> p \<in> set xs"
  by (induction xs) (auto split: if_splits)

lemma get_product_id: "get_product s k = Some p \<Longrightarrow> p_id p = k"
  by (auto simp: get_product_def dest: find_id)

subsection \<open>Requests preserve the cart invariant\<close>

lemma checkout_loop_cart:
  "\<exists>P. cart_items (checkout_loop oid items s) = filter P (cart_items s)"
proof (induction items arbitrary: s)
  case Nil
  have "cart_items s = filter (\<lambda>_. True) (cart_items s)" by simp
  then show ?case by (metis checkout_loop.simps(1))
next
  case (Cons item items)
  show ?case
  proof (cases "get_product s (ci_product_id item)")
    case None
    then show ?thesis using Cons.IH [of s] by simp
  next
    case (Some product)
    let ?s' = "s\<lparr>order_items := order_items s @
                 [\<lparr>oi_id = next_id (map oi_id (order_items s)),
                   oi_order_id = oid,
                   oi_product_id = ci_product_id item,
                   oi_title = p_title product,
                   oi_price_rupees = p_price_rupees product,
                   oi_quantity = ci_quantity item\<rparr>],
               cart_items := filter (\<lambda>i. ci_id i \<noteq> ci_id item) (cart_items s)\<rparr>"
    from Cons.IH [of ?s'] obtain P where
      "cart_items (checkout_loop oid items ?s') = filter P (cart_items ?s')" by blast
    then have "cart_items (checkout_loop oid (item # items) s)
                 = filter (\<lambda>i. ci_id i \<noteq> ci_id item \<and> P i) (cart_items s)"
      using Some by (simp add: conj_commute)
    then show ?thesis by blast
  qed
qed

lemma cart_inv_filter:
  "cart_inv s \<Longrightarrow> cart_items s' = filter P (cart_items s) \<Longrightarrow> cart_inv s'"
  by (simp add: cart_inv_def distinct_map_filter list_all_iff)

lemma cart_inv_same: "cart_inv s \<Longrightarrow> cart_items s' = cart_items s \<Longrightarrow> cart_inv s'"
  by (simp add: cart_inv_def)

lemma product_new_cart_items: "cart_items (snd (product_new cu now m f s)) = cart_items s"
  by (auto simp: product_new_def login_required_def Let_def split: option.splits sum.splits)

lemma product_edit_cart_items: "cart_items (snd (product_edit cu k m f s)) = cart_items s"
  by (auto simp: product_edit_def login_required_def Let_def split: option.splits sum.splits)

lemma product_delete_cart_items: "cart_items (snd (product_delete cu k s)) = cart_items s"
  by (auto simp: product_delete_def login_required_def split: option.splits)

lemma cart_view_store: "snd (cart_view cu s) = s"
  by (auto simp: cart_view_def login_required_def Let_def split: option.splits sum.splits)

lemma cart_inv_cart_remove: "cart_inv s \<Longrightarrow> cart_inv (snd (cart_remove cu k s))"
proof -
  have "\<exists>P. cart_items (snd (cart_remove cu k s)) = filter P (cart_items s)"
  proof (cases "fst (cart_remove cu k s)")
    case (Inl e)
    then have "snd (cart_remove cu k s) = s"
      by (auto simp: cart_remove_def login_required_def split: option.splits if_splits)
    moreover have "cart_items s = filter (\<lambda>_. True) (cart_items s)" by simp
    ultimately show ?thesis by metis
  next
    case (Inr r)
    then show ?thesis
      by (auto simp: cart_remove_def login_required_def split: option.splits if_splits)
  qed
  then show "cart_inv s \<Longrightarrow> cart_inv (snd (cart_remove cu k s))"
    using cart_inv_filter by blast
qed

lemma cart_inv_checkout: "cart_inv s \<Longrightarrow> cart_inv (snd (checkout cu now s))"
proof -
  assume inv: "cart_inv s"
  show ?thesis
  proof (cases cu)
    case None
    then show ?thesis using inv by (simp add: checkout_def login_required_def)
  next
    case (Some u)
    show ?thesis
    proof (cases "user_cart s u = []")
      case True
      then show ?thesis using inv Some by (simp add: checkout_def login_required_def)
    next
      case False
      let ?s1 = "s\<lparr>orders := orders s @
                   [\<lparr>o_id = next_id (map o_id (orders s)), o_user_id = u, o_created_at = now\<rparr>]\<rparr>"
      obtain P where "cart_items (checkout_loop (next_id (map o_id (orders s))) (user_cart s u) ?s1)
                        = filter P (cart_items ?s1)"
        using checkout_loop_cart by blast
      then have "cart_items (snd (checkout cu now s)) = filter P (cart_items s)"
        using False Some by (simp add: checkout_def login_required_def Let_def)
      then show ?thesis using inv cart_inv_filter by blast
    qed
  qed
qed


lemma filter_Cons_mem: "filter P xs = x # ys \<Longrightarrow> x \<in> set xs \<and> P x"
  by (induction xs) (auto split: if_splits)

lemma cart_inv_cart_add: "cart_inv s \<Longrightarrow> cart_inv (snd (cart_add cu k s))"
proof -
  assume inv: "cart_inv s"
  show ?thesis
  proof (cases cu)
    case None
    then show ?thesis using inv by (simp add: cart_add_def login_required_def)
  next
    case (Some u)
    show ?thesis
    proof (cases "get_product s k")
      case None
      then show ?thesis using inv Some by (simp add: cart_add_def login_required_def)
    next
      case prod: (Some product)
      let ?match = "filter (\<lambda>i. ci_user_id i = u \<and> ci_product_id i = p_id product) (cart_items s)"
      show ?thesis
      proof (cases ?match)
        case Nil
        then have "(u, p_id product) \<notin> set (map cart_key (cart_items s))"
          by (auto simp: cart_key_def filter_empty_conv)
        then show ?thesis using inv Some prod Nil
          by (simp add: cart_add_def login_required_def cart_inv_def cart_key_def)
      next
        case (Cons item rest)
        then have mem: "item \<in> set (cart_items s)"
          using filter_Cons_mem by fastforce
        then have q: "1 \<le> ci_quantity item"
          using inv by (simp add: cart_inv_def list_all_iff)
        let ?g = "\<lambda>i. if ci_id i = ci_id item then i\<lparr>ci_quantity := ci_quantity item + 1\<rparr> else i"
        have keys: "map cart_key (map ?g (cart_items s)) = map cart_key (cart_items s)"
          by (simp add: cart_key_def)
        have qs: "list_all (\<lambda>i. 1 \<le> ci_quantity i) (map ?g (cart_items s))"
          using inv q by (auto simp: cart_inv_def list_all_iff)
        have "cart_items (snd (cart_add cu k s)) = map ?g (cart_items s)"
          using Some prod Cons by (simp add: cart_add_def login_required_def)
        moreover have "distinct (map cart_key (map ?g (cart_items s)))"
          unfolding keys using inv by (simp add: cart_inv_def)
        ultimately show ?thesis using qs by (simp only: cart_inv_def simp_thms)
      qed
    qed
  qed
qed

lemma cart_inv_handle: "cart_inv s \<Longrightarrow> cart_inv (snd (handle r s))"
proof (cases r)
  case (ProductNew cu now m f)
  assume "cart_inv s"
  then show ?thesis using ProductNew by (simp add: cart_inv_def product_new_cart_items)
next
  case (ProductEdit cu k m f)
  assume "cart_inv s"
  then show ?thesis using ProductEdit by (simp add: cart_inv_def product_edit_cart_items)
next
  case (ProductDelete cu k)
  assume "cart_inv s"
  then show ?thesis using ProductDelete by (simp add: cart_inv_def product_delete_cart_items)
next
  case (CartView cu)
  assume "cart_inv s"
  then show ?thesis using CartView by (simp add: cart_view_store)
next
  case (CartAdd cu k)
  assume "cart_inv s"
  then show ?thesis using CartAdd by (simp add: cart_inv_cart_add)
next
  case (CartRemove cu k)
  assume "cart_inv s"
  then show ?thesis using CartRemove by (simp add: cart_inv_cart_remove)
next
  case (Checkout cu now)
  assume "cart_inv s"
  then show ?thesis using Checkout by (simp add: cart_inv_checkout)
qed

lemma cart_inv_run: "cart_inv s \<Longrightarrow> cart_inv (run rs s)"
  by (induction rs arbitrary: s) (simp_all add: cart_inv_handle)

lemma cart_add_twice:
  assumes prod: "get_product s k = Some p" and none: "entries_for s u k = []"
  shows "entries_for (run [CartAdd (Some u) k, CartAdd (Some u) k] s) u k =
           [\<lparr>ci_id = next_id (map ci_id (cart_items s)), ci_user_id = u, ci_product_id = k,
             ci_quantity = 2\<rparr>]"
proof -
  have pid: "p_id p = k" using prod by (rule get_product_id)
  let ?n = "next_id (map ci_id (cart_items s))"
  let ?new = "\<lparr>ci_id = ?n, ci_user_id = u, ci_product_id = k, ci_quantity = 1\<rparr>"
  let ?s1 = "s\<lparr>cart_items := cart_items s @ [?new]\<rparr>"
  have first: "snd (cart_add (Some u) k s) = ?s1"
    using prod none pid by (simp add: cart_add_def login_required_def entries_for_def)
  have prod1: "get_product ?s1 k = Some p"
    using prod by (simp add: get_product_def)
  have match1: "filter (\<lambda>i. ci_user_id i = u \<and> ci_product_id i = p_id p) (cart_items ?s1) = [?new]"
    using none pid by (simp add: entries_for_def)
  have old: "\<And>i. i \<in> set (cart_items s) \<Longrightarrow> ci_id i \<noteq> ?n"
    using next_id_fresh [of _ "map ci_id (cart_items s)"] by fastforce
  have upd: "\<And>q. map (\<lambda>i. if ci_id i = ?n then i\<lparr>ci_quantity := q\<rparr> else i) (cart_items s)
               = cart_items s"
    using old by (simp add: map_idI)
  have second: "cart_items (snd (cart_add (Some u) k ?s1))
                  = cart_items s @ [?new\<lparr>ci_quantity := 2\<rparr>]"
    using prod1 match1 upd by (simp add: cart_add_def login_required_def)
  show ?thesis
    using first second none by (simp add: entries_for_def)
qed


subsection \<open>The session cart keeps one entry for each product\<close>

lemma merge_quantity_None: "merge_quantity k cart = None \<longleftrightarrow> k \<notin> ce_id ` set cart"
  by (induction cart) auto

lemma merge_quantity_ids: "merge_quantity k cart = Some cart' \<Longrightarrow> map ce_id cart' = map ce_id cart"
  by (induction cart arbitrary: cart') (auto split: if_splits)

lemma merge_quantity_pos:
  "merge_quantity k cart = Some cart' \<Longrightarrow> list_all (\<lambda>e. 1 \<le> ce_quantity e) cart \<Longrightarrow>
   list_all (\<lambda>e. 1 \<le> ce_quantity e) cart'"
  by (induction cart arbitrary: cart') (auto split: if_splits)

lemma merge_quantity_append:
  "k \<notin> ce_id ` set cart \<Longrightarrow> ce_id e = k \<Longrightarrow>
   merge_quantity k (cart @ [e]) = Some (cart @ [e\<lparr>ce_quantity := ce_quantity e + 1\<rparr>])"
  by (induction cart) auto

lemma product_form_cart: "b_cart (snd (product_form fl cu now m f t)) = b_cart t"
  by (auto simp: product_form_def login_required_def Let_def split: option.splits sum.splits)

lemma cart_inv_b_add_to_cart: "cart_inv_b t \<Longrightarrow> cart_inv_b (snd (add_to_cart k t))"
proof (cases "find (\<lambda>p. bp_id p = k) (b_products t)")
  case None
  assume "cart_inv_b t"
  then show ?thesis using None by (simp add: add_to_cart_def)
next
  case (Some product)
  assume inv: "cart_inv_b t"
  show ?thesis
  proof (cases "merge_quantity (bp_id product) (b_cart t)")
    case None
    then have "bp_id product \<notin> ce_id ` set (b_cart t)"
      by (simp add: merge_quantity_None)
    then show ?thesis using inv Some None
      by (simp add: add_to_cart_def cart_inv_b_def)
  next
    case merged: (Some cart')
    have "distinct (map ce_id cart')"
      using inv merge_quantity_ids [OF merged] by (simp add: cart_inv_b_def)
    moreover have "list_all (\<lambda>e. 1 \<le> ce_quantity e) cart'"
      using inv merge_quantity_pos [OF merged] by (simp add: cart_inv_b_def)
    ultimately show ?thesis using Some merged
      by (simp add: add_to_cart_def cart_inv_b_def)
  qed
qed

lemma cart_inv_b_remove: "cart_inv_b t \<Longrightarrow> cart_inv_b (snd (remove_from_cart k t))"
  by (simp add: remove_from_cart_def cart_inv_b_def distinct_map_filter list_all_iff)

lemma cart_inv_b_checkout: "cart_inv_b t \<Longrightarrow> cart_inv_b (snd (checkout_b fl cu now t))"
  by (cases cu) (simp_all add: checkout_b_def login_required_def Let_def cart_inv_b_def)

lemma cart_inv_b_handle: "cart_inv_b t \<Longrightarrow> cart_inv_b (snd (handle_b fl r t))"
proof (cases r)
  case (ProductForm cu now m f)
  assume "cart_inv_b t"
  then show ?thesis using ProductForm by (simp add: cart_inv_b_def product_form_cart)
next
  case (AddToCart k)
  assume "cart_inv_b t"
  then show ?thesis using AddToCart by (simp add: cart_inv_b_add_to_cart)
next
  case (RemoveFromCart k)
  assume "cart_inv_b t"
  then show ?thesis using RemoveFromCart by (simp add: cart_inv_b_remove)
next
  case ViewCart
  assume "cart_inv_b t"
  then show ?thesis using ViewCart by (simp add: cart_b_def)
next
  case (Checkout_b cu now)
  assume "cart_inv_b t"
  then show ?thesis using Checkout_b by (simp add: cart_inv_b_checkout)
qed

lemma cart_inv_b_run: "cart_inv_b t \<Longrightarrow> cart_inv_b (run_b fl rs t)"
  by (induction rs arbitrary: t) (simp_all add: cart_inv_b_handle)

lemma add_to_cart_twice:
  assumes prod: "find (\<lambda>p. bp_id p = k) (b_products t) = Some p"
    and none: "entries_for_b t k = []"
  shows "entries_for_b (run_b fl [AddToCart k, AddToCart k] t) k =
           [\<lparr>ce_id = k, ce_name = bp_name p, ce_price = bp_price p, ce_quantity = 2\<rparr>]"
proof -
  have pid: "bp_id p = k" using prod by (auto dest: find_id)
  have absent: "k \<notin> ce_id ` set (b_cart t)"
    using none by (auto simp: entries_for_b_def filter_empty_conv)
  let ?new = "\<lparr>ce_id = k, ce_name = bp_name p, ce_price = bp_price p, ce_quantity = 1\<rparr>"
  let ?t1 = "t\<lparr>b_cart := b_cart t @ [?new]\<rparr>"
  have first: "snd (add_to_cart k t) = ?t1"
    using prod pid absent merge_quantity_None [of k "b_cart t"] by (simp add: add_to_cart_def)
  have "merge_quantity k (b_cart t @ [?new]) = Some (b_cart t @ [?new\<lparr>ce_quantity := 1 + 1\<rparr>])"
    using merge_quantity_append [OF absent, of ?new] by simp
  then have second: "b_cart (snd (add_to_cart k ?t1)) = b_cart t @ [?new\<lparr>ce_quantity := 2\<rparr>]"
    using prod pid by (simp add: add_to_cart_def)
  show ?thesis
    using first second none by (simp add: entries_for_b_def)
qed

subsection \<open>The cart keeps one entry for each owner and product\<close>

text \<open>
  C8. Every sequence of requests, cart operations and product operations alike,
  preserves the cart invariant: at most one entry for each owner and product, every
  quantity at least one. It holds of the empty store, hence of every store reached from
  it. Adding a product twice for an owner who had no entry for it leaves exactly one
  entry for that owner and product, with quantity 2. The same holds of the session cart
  of the session-keyed application.
\<close>

theorem c8_cart_invariant:
  "cart_inv (run rs empty_db) \<and>
   (cart_inv s \<longrightarrow> cart_inv (run rs s)) \<and>
   (get_product s k = Some p \<and> entries_for s u k = [] \<longrightarrow>
      entries_for (run [CartAdd (Some u) k, CartAdd (Some u) k] s) u k =
        [\<lparr>ci_id = next_id (map ci_id (cart_items s)), ci_user_id = u, ci_product_id = k,
          ci_quantity = 2\<rparr>]) \<and>
   (cart_inv_b t \<longrightarrow> cart_inv_b (run_b fl rs' t)) \<and>
   (find (\<lambda>p. bp_id p = k') (b_products t) = Some p' \<and> entries_for_b t k' = [] \<longrightarrow>
      entries_for_b (run_b fl [AddToCart k', AddToCart k'] t) k' =
        [\<lparr>ce_id = k', ce_name = bp_name p', ce_price = bp_price p', ce_quantity = 2\<rparr>])"
proof -
  have "cart_inv empty_db"
    by (simp add: cart_inv_def empty_db_def)
  then have "cart_inv (run rs empty_db)"
    by (rule cart_inv_run)
  then show ?thesis
    using cart_inv_run cart_add_twice cart_inv_b_run add_to_cart_twice by blast
qed

theorem c8_cart_invariant_witness:
  "cart_inv db_listed \<and> cart_inv (run cart_session db_listed) \<and>
   get_product db_listed 1 = Some bottle \<and> entries_for db_listed 3 1 = [] \<and>
   entries_for (run [CartAdd (Some 3) 1, CartAdd (Some 3) 1] db_listed) 3 1 =
     [\<lparr>ci_id = 2, ci_user_id = 3, ci_product_id = 1, ci_quantity = 2\<rparr>] \<and>
   cart_inv_b store_listed_b \<and> cart_inv_b (run_b int_ops cart_session_b store_listed_b) \<and>
   find (\<lambda>p. bp_id p = 1) (b_products store_listed_b) = Some bottle_b \<and>
   entries_for_b store_listed_b 1 = [] \<and>
   entries_for_b (run_b int_ops [AddToCart 1, AddToCart 1] store_listed_b) 1 =
     [\<lparr>ce_id = 1, ce_name = ''Bottle'', ce_price = 10, ce_quantity = 2\<rparr>]"
proof -
  have h1: "cart_inv db_listed"
    by code_simp
  have h2: "get_product db_listed 1 = Some bottle \<and> entries_for db_listed 3 1 = []"
    by code_simp
  have h3: "cart_inv_b store_listed_b"
    by code_simp
  have h4: "find (\<lambda>p. bp_id p = 1) (b_products store_listed_b) = Some bottle_b \<and>
            entries_for_b store_listed_b 1 = []"
    by code_simp
  have n: "next_id (map ci_id (cart_items db_listed)) = 2"
    by code_simp
  have b: "bp_name bottle_b = ''Bottle'' \<and> bp_price bottle_b = 10"
    by (simp add: bottle_b_def)
  from c8_cart_invariant [of cart_session db_listed 1 bottle 3 store_listed_b int_ops
      cart_session_b 1 bottle_b] h1 h2 h3 h4 n b
  show ?thesis by simp
qed

subsection \<open>Checkout of a cart whose products are gone\<close>

lemma checkout_loop_all_missing:
  "list_all (\<lambda>i. get_product s (ci_product_id i) = None) items \<Longrightarrow>
   checkout_loop oid items s = s"
  by (induction items) simp_all

lemma add_order_items_orders: "b_orders (add_order_items oid cart t) = b_orders t"
  by (induction cart arbitrary: t) simp_all

text \<open>
  C1, as the code has it. A cart that has entries is never treated as empty: when every
  entry is stale, checkout succeeds and adds one Order row for the owner and no order
  item. In the session-keyed application every non-empty cart yields an Order row.
\<close>

theorem c1_stale_cart_creates_order:
  "(user_cart s u \<noteq> [] \<and> all_products_missing s u \<longrightarrow>
      fst (checkout (Some u) now s) = Inr (Redirect ''orders'') \<and>
      orders (snd (checkout (Some u) now s)) =
        orders s @ [\<lparr>o_id = next_id (map o_id (orders s)), o_user_id = u, o_created_at = now\<rparr>] \<and>
      order_items (snd (checkout (Some u) now s)) = order_items s) \<and>
   (b_cart t \<noteq> [] \<longrightarrow>
      fst (checkout_b fl (Some u) now t) = Inr (Redirected ''orders'') \<and>
      b_orders (snd (checkout_b fl (Some u) now t)) =
        b_orders t @ [\<lparr>bo_id = next_id (map bo_id (b_orders t)), bo_user_id = u,
                       bo_total = cart_sum fl (b_cart t), bo_created_at = now\<rparr>])"
proof -
  have "checkout_loop oid (user_cart s u) s' = s'"
    if "all_products_missing s u" and "products s' = products s" for oid s'
  proof -
    have "list_all (\<lambda>i. get_product s' (ci_product_id i) = None) (user_cart s u)"
      using that by (simp add: all_products_missing_def get_product_def)
    then show ?thesis by (rule checkout_loop_all_missing)
  qed
  then show ?thesis
    by (simp add: checkout_def checkout_b_def login_required_def Let_def add_order_items_orders)
qed

theorem c1_stale_cart_creates_order_witness:
  "user_cart db_stale 2 \<noteq> [] \<and> all_products_missing db_stale 2 \<and>
   fst (checkout (Some 2) 9 db_stale) = Inr (Redirect ''orders'') \<and>
   orders (snd (checkout (Some 2) 9 db_stale)) =
     orders db_stale @ [\<lparr>o_id = next_id (map o_id (orders db_stale)), o_user_id = 2,
                         o_created_at = 9\<rparr>] \<and>
   order_items (snd (checkout (Some 2) 9 db_stale)) = order_items db_stale \<and>
   b_cart (run_b int_ops [AddToCart 1] store_listed_b) \<noteq> [] \<and>
   fst (checkout_b int_ops (Some 2) 9 (run_b int_ops [AddToCart 1] store_listed_b))
     = Inr (Redirected ''orders'')"
proof -
  have h1: "user_cart db_stale 2 \<noteq> [] \<and> all_products_missing db_stale 2"
    by code_simp
  have h2: "b_cart (run_b int_ops [AddToCart 1] store_listed_b) \<noteq> []"
    by code_simp
  from c1_stale_cart_creates_order
    [of db_stale 2 9 "run_b int_ops [AddToCart 1] store_listed_b" int_ops] h1 h2
  show ?thesis by simp
qed

text \<open>
  The claim as the specification words it fails on \<open>db_stale\<close>: the cart of user 2 has
  one entry, its product is gone, and checkout answers with the redirect to the orders
  page and has created an Order row.
\<close>

theorem c1_empty_order_counterexample:
  "user_cart db_stale 2 \<noteq> [] \<and> all_products_missing db_stale 2 \<and>
   fst (checkout (Some 2) 9 db_stale) = Inr (Redirect ''orders'') \<and>
   orders db_stale = [] \<and>
   orders (snd (checkout (Some 2) 9 db_stale)) = [\<lparr>o_id = 1, o_user_id = 2, o_created_at = 9\<rparr>]"
  by code_simp

subsection \<open>What checkout leaves in the cart\<close>

text \<open>
  C2. In \<open>db_mixed\<close> the cart of user 2 holds a bottle and a stale entry for the deleted
  jar. Checkout succeeds and creates the order, and the stale entry is still in the
  cart afterwards: the loop deletes a row only after the test that passes stale rows
  over. The session-keyed checkout empties the cart whenever it succeeds.
\<close>

theorem c2_checkout_keeps_stale_entry:
  "fst (checkout (Some 2) 9 db_mixed) = Inr (Redirect ''orders'') \<and>
   orders (snd (checkout (Some 2) 9 db_mixed)) = [\<lparr>o_id = 1, o_user_id = 2, o_created_at = 9\<rparr>] \<and>
   user_cart (snd (checkout (Some 2) 9 db_mixed)) 2 =
     [\<lparr>ci_id = 2, ci_user_id = 2, ci_product_id = 2, ci_quantity = 1\<rparr>]"
  by code_simp

lemma checkout_b_clears_cart:
  "fst (checkout_b fl cu now t) = Inr r \<Longrightarrow> b_cart (snd (checkout_b fl cu now t)) = []"
  by (cases cu) (auto simp: checkout_b_def login_required_def Let_def split: if_splits)

subsection \<open>Deleting a product\<close>

lemma find_filter_None: "find (\<lambda>p. f p = k) (filter (\<lambda>p. f p \<noteq> k) xs) = None"
  by (induction xs) simp_all

text \<open>
  C7, as the code has it. A successful \<^verbatim>\<open>product_delete\<close> removes the product and
  nothing else: the cart table is the same before and after, so entries that reference
  the deleted product stay in their owners' carts, where they count for nothing.
\<close>

theorem c7_delete_leaves_cart_entries:
  "product_delete (Some u) k s = (Inr r, s') \<Longrightarrow>
   get_product s' k = None \<and> cart_items s' = cart_items s \<and>
   (ci_product_id i = k \<longrightarrow> entry_amount s' i = 0)"
proof -
  assume ok: "product_delete (Some u) k s = (Inr r, s')"
  then obtain p where p: "get_product s k = Some p" and own: "p_seller_id p = u"
    and s': "s' = s\<lparr>products := filter (\<lambda>q. p_id q \<noteq> p_id p) (products s)\<rparr>"
    by (auto simp: product_delete_def login_required_def split: option.splits if_splits)
  have "p_id p = k" using p by (rule get_product_id)
  then have gone: "get_product s' k = None"
    using s' by (simp add: get_product_def find_filter_None)
  then show ?thesis using s' by (simp add: entry_amount_def)
qed

theorem c7_delete_leaves_cart_entries_witness:
  "product_delete (Some 1) 1 db_listed = (Inr (Redirect ''my_listings''), db_stale) \<and>
   get_product db_stale 1 = None \<and> cart_items db_stale = cart_items db_listed \<and>
   entry_amount db_stale \<lparr>ci_id = 1, ci_user_id = 2, ci_product_id = 1, ci_quantity = 1\<rparr> = 0"
proof -
  have h: "product_delete (Some 1) 1 db_listed = (Inr (Redirect ''my_listings''), db_stale)"
    by code_simp
  from c7_delete_leaves_cart_entries
    [OF h, of "\<lparr>ci_id = 1, ci_user_id = 2, ci_product_id = 1, ci_quantity = 1\<rparr>"] h
  show ?thesis by simp
qed

text \<open>
  The claim as the specification words it fails on \<open>db_listed\<close>: the seller deletes the
  bottle, the request succeeds, and the cart of user 2 still holds its entry for it.
\<close>

theorem c7_cascade_counterexample:
  "fst (product_delete (Some 1) 1 db_listed) = Inr (Redirect ''my_listings'') \<and>
   get_product (snd (product_delete (Some 1) 1 db_listed)) 1 = None \<and>
   entries_for (snd (product_delete (Some 1) 1 db_listed)) 2 1 =
     [\<lparr>ci_id = 1, ci_user_id = 2, ci_product_id = 1, ci_quantity = 1\<rparr>]"
  by code_simp

subsection \<open>Category validation\<close>

lemma product_new_checks_category:
  "strip (form_get f ''category'' '''') \<notin> set CATEGORIES \<Longrightarrow>
   snd (product_new cu now m f s) = s \<and>
   (m = POST \<longrightarrow>
      fst (product_new (Some u) now m f s) = Inl MissingField \<or>
      fst (product_new (Some u) now m f s) = Inl InvalidCategory)"
  by (cases cu)
    (auto simp: product_new_def login_required_def Let_def parse_int_def split: sum.splits)

text \<open>
  C6. \<^verbatim>\<open>product_new\<close> of the user-keyed application rejects a category outside its
  list, as the lemma above states. \<^verbatim>\<open>product_form\<close> of the session-keyed application
  does not look at the category: the form below, with a category that is not in
  \<open>CATEGORIES_b\<close>, is accepted and the product is stored with it, whatever the float
  operations are.
\<close>

theorem c6_product_form_unchecked_category:
  "''Weapons'' \<notin> set CATEGORIES_b \<and>
   product_form fl (Some 1) 0 POST lamp_form_b empty_store_b =
     (Inr (Redirected ''my_listings''),
      \<lparr>b_products =
         [\<lparr>bp_id = 1, bp_name = ''Lamp'', bp_description = [], bp_price = float_of_int fl 0,
           bp_category = ''Weapons'', bp_created_at = 0, bp_seller_id = 1\<rparr>],
       b_orders = [], b_order_items = [], b_cart = []\<rparr>)"
  by (simp add: CATEGORIES_b_def product_form_def login_required_def lamp_form_b_def
      empty_store_b_def form_get_def strip_def is_space_def next_id_def)

subsection \<open>Parsing the price\<close>

text \<open>
  C10. \<^verbatim>\<open>parse_int\<close> returns an integer for every string and never lets an exception
  out; where \<^verbatim>\<open>int\<close> raises, the result is the default, which \<^verbatim>\<open>product_new\<close> sets
  to 0. So a creation request whose price field is missing or does not parse never
  ends in a server error, and when it has a title and a listed category it succeeds
  and appends a product with price 0.
\<close>

theorem c10_price_parsing_total:
  "(\<exists>n. parse_int v d = Inr n) \<and>
   (py_int v = Inl e \<longrightarrow> parse_int v 0 = Inr 0) \<and>
   (map_of f ''price'' = None \<or> py_int (form_get f ''price'' ''0'') = Inl e \<longrightarrow>
      fst (product_new cu now m f s) \<noteq> Inl (ServerError e')) \<and>
   (strip (form_get f ''title'' '''') \<noteq> [] \<and>
    strip (form_get f ''category'' '''') \<in> set CATEGORIES \<and>
    (map_of f ''price'' = None \<or> py_int (form_get f ''price'' ''0'') = Inl e) \<longrightarrow>
      fst (product_new (Some u) now POST f s) = Inr (Redirect ''my_listings'') \<and>
      (\<exists>p. products (snd (product_new (Some u) now POST f s)) = products s @ [p] \<and>
           p_price_rupees p = 0 \<and> p_seller_id p = u))"
proof -
  have total: "\<exists>n. parse_int v d = Inr n" for v d
    by (simp add: parse_int_def split: sum.splits)
  have dflt: "parse_int v 0 = Inr 0" if "py_int v = Inl e" for v
    using that by (simp add: parse_int_def)
  have zero: "py_int ''0'' = Inr 0"
    by code_simp
  have missing: "parse_int (form_get f ''price'' ''0'') 0 = Inr 0" if "map_of f ''price'' = None"
    using that zero by (simp add: form_get_def parse_int_def)
  have no_exn: "fst (product_new cu now m f s) \<noteq> Inl (ServerError e')"
    using total [of "form_get f ''price'' ''0''" 0]
    by (cases cu) (auto simp: product_new_def login_required_def Let_def split: if_splits)
  have nonempty: "[] \<notin> set CATEGORIES"
    by (simp add: CATEGORIES_def)
  have created:
    "fst (product_new (Some u) now POST f s) = Inr (Redirect ''my_listings'') \<and>
     (\<exists>p. products (snd (product_new (Some u) now POST f s)) = products s @ [p] \<and>
          p_price_rupees p = 0 \<and> p_seller_id p = u)"
    if "strip (form_get f ''title'' '''') \<noteq> []"
      and "strip (form_get f ''category'' '''') \<in> set CATEGORIES"
      and "parse_int (form_get f ''price'' ''0'') 0 = Inr 0"
    using that nonempty by (auto simp: product_new_def login_required_def Let_def)
  show ?thesis
    using total dflt no_exn created missing by blast
qed

theorem c10_price_parsing_total_witness:
  "strip (form_get free_form ''title'' '''') \<noteq> [] \<and>
   strip (form_get free_form ''category'' '''') \<in> set CATEGORIES \<and>
   py_int (form_get free_form ''price'' ''0'') = Inl ValueError \<and>
   parse_int ''free'' 0 = Inr 0 \<and>
   fst (product_new (Some 4) 3 POST free_form db_listed) \<noteq> Inl (ServerError ValueError) \<and>
   fst (product_new (Some 4) 3 POST free_form db_listed) = Inr (Redirect ''my_listings'') \<and>
   (\<exists>p. products (snd (product_new (Some 4) 3 POST free_form db_listed))
          = products db_listed @ [p] \<and> p_price_rupees p = 0 \<and> p_seller_id p = 4)"
proof -
  have h1: "strip (form_get free_form ''title'' '''') \<noteq> []"
    by code_simp
  have h2: "strip (form_get free_form ''category'' '''') \<in> set CATEGORIES"
    by code_simp
  have h3: "py_int (form_get free_form ''price'' ''0'') = Inl ValueError"
    by code_simp
  have h4: "py_int ''free'' = Inl ValueError"
    by code_simp
  from c10_price_parsing_total
    [where v = "''free''" and d = 0 and e = ValueError and cu = "Some 4" and now = 3
       and m = POST and f = free_form and s = db_listed and e' = ValueError and u = 4]
    h1 h2 h3 h4
  show ?thesis by simp
qed

subsection \<open>The cart total\<close>





subsection \<open>The session cart carries the prices of the store\<close>

lemma find_append_Some: "find P xs = Some x \<Longrightarrow> find P (xs @ ys) = Some x"
  by (induction xs) (auto split: if_splits)

lemma merge_quantity_pred:
  assumes "\<And>e q. Q (e\<lparr>ce_quantity := q\<rparr>) = Q e"
  shows "merge_quantity k cart = Some cart' \<Longrightarrow> list_all Q cart \<Longrightarrow> list_all Q cart'"
  using assms by (induction cart arbitrary: cart') (auto split: if_splits)

lemma add_order_items_products: "b_products (add_order_items oid cart t) = b_products t"
  by (induction cart arbitrary: t) simp_all

lemma cart_priced_cong:
  "cart_priced t \<Longrightarrow> b_cart t' = b_cart t \<Longrightarrow> b_products t' = b_products t \<Longrightarrow> cart_priced t'"
  by (simp add: cart_priced_def get_product_b_def)

lemma cart_priced_product_form:
  "cart_priced t \<Longrightarrow> cart_priced (snd (product_form fl cu now m f t))"
proof -
  assume inv: "cart_priced t"
  have "\<exists>more. b_products (snd (product_form fl cu now m f t)) = b_products t @ more"
    by (cases cu)
      (auto simp: product_form_def login_required_def Let_def split: option.splits sum.splits)
  then obtain more where ps: "b_products (snd (product_form fl cu now m f t)) = b_products t @ more"
    by blast
  have "(case find (\<lambda>p. bp_id p = ce_id e) (b_products t @ more) of
           None \<Rightarrow> False | Some p \<Rightarrow> bp_price p = ce_price e)"
    if "e \<in> set (b_cart t)" for e
  proof -
    from inv that obtain p where "find (\<lambda>p. bp_id p = ce_id e) (b_products t) = Some p"
      and "bp_price p = ce_price e"
      by (auto simp: cart_priced_def get_product_b_def list_all_iff split: option.splits)
    then show ?thesis by (simp add: find_append_Some)
  qed
  then show ?thesis
    by (simp add: cart_priced_def get_product_b_def list_all_iff ps product_form_cart)
qed

lemma cart_priced_add_to_cart: "cart_priced t \<Longrightarrow> cart_priced (snd (add_to_cart k t))"
proof (cases "find (\<lambda>p. bp_id p = k) (b_products t)")
  case None
  assume "cart_priced t"
  then show ?thesis using None by (simp add: add_to_cart_def)
next
  case (Some product)
  assume inv: "cart_priced t"
  have pid: "bp_id product = k" using Some by (auto dest: find_id)
  let ?Q = "\<lambda>e. case get_product_b t (ce_id e) of None \<Rightarrow> False | Some p \<Rightarrow> bp_price p = ce_price e"
  show ?thesis
  proof (cases "merge_quantity (bp_id product) (b_cart t)")
    case None
    then show ?thesis using inv Some pid
      by (simp add: add_to_cart_def cart_priced_def get_product_b_def)
  next
    case merged: (Some cart')
    have q: "?Q (e\<lparr>ce_quantity := n\<rparr>) = ?Q e" for e n
      by (simp split: option.splits)
    have "list_all ?Q (b_cart t)"
      using inv by (simp add: cart_priced_def)
    then have "list_all ?Q cart'"
      by (rule merge_quantity_pred [of ?Q, OF q merged])
    then show ?thesis using Some merged
      by (simp add: add_to_cart_def cart_priced_def get_product_b_def)
  qed
qed

lemma cart_priced_remove: "cart_priced t \<Longrightarrow> cart_priced (snd (remove_from_cart k t))"
  by (simp add: remove_from_cart_def cart_priced_def get_product_b_def list_all_iff)

lemma cart_priced_checkout: "cart_priced t \<Longrightarrow> cart_priced (snd (checkout_b fl cu now t))"
  by (cases cu)
    (simp_all add: checkout_b_def login_required_def Let_def cart_priced_def get_product_b_def)

lemma cart_priced_handle: "cart_priced t \<Longrightarrow> cart_priced (snd (handle_b fl r t))"
proof (cases r)
  case (ProductForm cu now m f)
  assume "cart_priced t"
  then show ?thesis using ProductForm by (simp add: cart_priced_product_form)
next
  case (AddToCart k)
  assume "cart_priced t"
  then show ?thesis using AddToCart by (simp add: cart_priced_add_to_cart)
next
  case (RemoveFromCart k)
  assume "cart_priced t"
  then show ?thesis using RemoveFromCart by (simp add: cart_priced_remove)
next
  case ViewCart
  assume "cart_priced t"
  then show ?thesis using ViewCart by (simp add: cart_b_def)
next
  case (Checkout_b cu now)
  assume "cart_priced t"
  then show ?thesis using Checkout_b by (simp add: cart_priced_checkout)
qed

lemma cart_priced_run: "cart_priced t \<Longrightarrow> cart_priced (run_b fl rs t)"
  by (induction rs arbitrary: t) (simp_all add: cart_priced_handle)




subsection \<open>Order lines are snapshots\<close>

lemma spec_lines_cong:
  "products s' = products s \<Longrightarrow> spec_lines oid s' items = spec_lines oid s items"
  by (simp add: spec_lines_def get_product_def)

lemma checkout_loop_products: "products (checkout_loop oid items s) = products s"
  by (induction items arbitrary: s) (simp_all split: option.splits)

lemma checkout_loop_lines:
  "\<exists>new. order_items (checkout_loop oid items s) = order_items s @ new \<and>
         map line_data new = spec_lines oid s items"
proof (induction items arbitrary: s)
  case Nil
  show ?case by (simp add: spec_lines_def)
next
  case (Cons item items)
  show ?case
  proof (cases "get_product s (ci_product_id item)")
    case None
    from Cons.IH [of s] obtain new where
      "order_items (checkout_loop oid items s) = order_items s @ new"
      "map line_data new = spec_lines oid s items" by blast
    then show ?thesis using None by (simp add: spec_lines_def)
  next
    case (Some product)
    let ?l = "\<lparr>oi_id = next_id (map oi_id (order_items s)),
               oi_order_id = oid,
               oi_product_id = ci_product_id item,
               oi_title = p_title product,
               oi_price_rupees = p_price_rupees product,
               oi_quantity = ci_quantity item\<rparr>"
    let ?s1 = "s\<lparr>order_items := order_items s @ [?l],
                 cart_items := filter (\<lambda>i. ci_id i \<noteq> ci_id item) (cart_items s)\<rparr>"
    from Cons.IH [of ?s1] obtain new where
      new: "order_items (checkout_loop oid items ?s1) = order_items ?s1 @ new"
      and lines: "map line_data new = spec_lines oid ?s1 items" by blast
    have same: "spec_lines oid ?s1 items = spec_lines oid s items"
      by (rule spec_lines_cong) simp
    have "order_items (checkout_loop oid (item # items) s) = order_items s @ (?l # new)"
      using Some new by simp
    moreover have "map line_data (?l # new) = spec_lines oid s (item # items)"
      using Some lines same by (simp add: spec_lines_def line_data_def)
    ultimately show ?thesis by blast
  qed
qed

lemma checkout_lines:
  assumes ok: "fst (checkout (Some u) now s) = Inr r"
  shows "\<exists>new. order_items (snd (checkout (Some u) now s)) = order_items s @ new \<and>
               map line_data new = spec_lines (next_id (map o_id (orders s))) s (user_cart s u)"
proof -
  let ?oid = "next_id (map o_id (orders s))"
  let ?s1 = "s\<lparr>orders := orders s @ [\<lparr>o_id = ?oid, o_user_id = u, o_created_at = now\<rparr>]\<rparr>"
  have nonempty: "user_cart s u \<noteq> []"
    using ok by (auto simp: checkout_def login_required_def Let_def split: if_splits)
  then have s': "snd (checkout (Some u) now s) = checkout_loop ?oid (user_cart s u) ?s1"
    by (simp add: checkout_def login_required_def Let_def)
  from checkout_loop_lines [of ?oid "user_cart s u" ?s1] obtain new where
    "order_items (checkout_loop ?oid (user_cart s u) ?s1) = order_items ?s1 @ new"
    "map line_data new = spec_lines ?oid ?s1 (user_cart s u)" by blast
  moreover have "spec_lines ?oid ?s1 (user_cart s u) = spec_lines ?oid s (user_cart s u)"
    by (rule spec_lines_cong) simp
  ultimately show ?thesis using s' by simp
qed

lemma checkout_order_items_grow:
  "\<exists>more. order_items (snd (checkout cu now s)) = order_items s @ more"
proof (cases "fst (checkout cu now s)")
  case (Inl e)
  then have "snd (checkout cu now s) = s"
    by (cases cu) (auto simp: checkout_def login_required_def Let_def split: if_splits)
  then show ?thesis by simp
next
  case (Inr r)
  then obtain u where "cu = Some u"
    by (cases cu) (auto simp: checkout_def login_required_def)
  then show ?thesis using Inr checkout_lines by blast
qed

lemma handle_order_items_grow:
  "\<exists>more. order_items (snd (handle r s)) = order_items s @ more"
proof (cases r)
  case (ProductNew cu now m f)
  have "order_items (snd (product_new cu now m f s)) = order_items s"
    by (auto simp: product_new_def login_required_def Let_def split: option.splits sum.splits)
  then show ?thesis using ProductNew by simp
next
  case (ProductEdit cu k m f)
  have "order_items (snd (product_edit cu k m f s)) = order_items s"
    by (auto simp: product_edit_def login_required_def Let_def split: option.splits sum.splits)
  then show ?thesis using ProductEdit by simp
next
  case (ProductDelete cu k)
  have "order_items (snd (product_delete cu k s)) = order_items s"
    by (auto simp: product_delete_def login_required_def split: option.splits)
  then show ?thesis using ProductDelete by simp
next
  case (CartView cu)
  then show ?thesis by (simp add: cart_view_store)
next
  case (CartAdd cu k)
  have "order_items (snd (cart_add cu k s)) = order_items s"
    by (auto simp: cart_add_def login_required_def split: option.splits list.splits)
  then show ?thesis using CartAdd by simp
next
  case (CartRemove cu k)
  have "order_items (snd (cart_remove cu k s)) = order_items s"
    by (auto simp: cart_remove_def login_required_def split: option.splits)
  then show ?thesis using CartRemove by simp
next
  case (Checkout cu now)
  then show ?thesis using checkout_order_items_grow by simp
qed

lemma run_order_items_grow: "\<exists>more. order_items (run rs s) = order_items s @ more"
proof (induction rs arbitrary: s)
  case Nil
  show ?case by simp
next
  case (Cons r rs)
  obtain m1 where "order_items (snd (handle r s)) = order_items s @ m1"
    using handle_order_items_grow by blast
  moreover obtain m2 where "order_items (run rs (snd (handle r s))) = order_items (snd (handle r s)) @ m2"
    using Cons.IH by blast
  ultimately have "order_items (run (r # rs) s) = order_items s @ (m1 @ m2)"
    by simp
  then show ?case by blast
qed

lemma add_order_items_lines:
  "\<exists>new. b_order_items (add_order_items oid cart t) = b_order_items t @ new \<and>
         map line_data_b new = map (\<lambda>e. (oid, ce_id e, ce_quantity e, ce_price e)) cart"
proof (induction cart arbitrary: t)
  case Nil
  show ?case by simp
next
  case (Cons item cart)
  let ?l = "\<lparr>boi_id = next_id (map boi_id (b_order_items t)), boi_order_id = oid,
             boi_product_id = ce_id item, boi_quantity = ce_quantity item,
             boi_price = ce_price item\<rparr>"
  let ?t1 = "t\<lparr>b_order_items := b_order_items t @ [?l]\<rparr>"
  from Cons.IH [of ?t1] obtain new where
    "b_order_items (add_order_items oid cart ?t1) = b_order_items ?t1 @ new"
    "map line_data_b new = map (\<lambda>e. (oid, ce_id e, ce_quantity e, ce_price e)) cart" by blast
  then have "b_order_items (add_order_items oid (item # cart) t) = b_order_items t @ (?l # new) \<and>
             map line_data_b (?l # new)
               = map (\<lambda>e. (oid, ce_id e, ce_quantity e, ce_price e)) (item # cart)"
    by (simp add: line_data_b_def)
  then show ?case by blast
qed

lemma cart_priced_lines:
  "cart_priced t \<Longrightarrow>
   map (\<lambda>e. (oid, ce_id e, ce_quantity e, ce_price e)) (b_cart t) = spec_lines_b oid t"
proof -
  assume inv: "cart_priced t"
  have ex: "get_product_b t (ce_id e) \<noteq> None" if "e \<in> set (b_cart t)" for e
    using inv that by (auto simp: cart_priced_def list_all_iff split: option.splits)
  have pr: "bp_price (the (get_product_b t (ce_id e))) = ce_price e" if "e \<in> set (b_cart t)" for e
    using inv that by (auto simp: cart_priced_def list_all_iff split: option.splits)
  have all: "filter (\<lambda>e. get_product_b t (ce_id e) \<noteq> None) (b_cart t) = b_cart t"
    using ex by (simp add: filter_id_conv)
  have same: "map (\<lambda>e. (oid, ce_id e, ce_quantity e, bp_price (the (get_product_b t (ce_id e)))))
                (b_cart t)
              = map (\<lambda>e. (oid, ce_id e, ce_quantity e, ce_price e)) (b_cart t)"
    using pr by simp
  show ?thesis
    by (simp only: spec_lines_b_def all same)
qed

text \<open>
  C3, as the code has it. In the user-keyed application a successful checkout appends
  one order item for each of the owner's entries whose product exists, carrying the
  title and the price the product has in the store at that moment and the quantity of
  the entry; whatever requests follow, product edits and deletions among them, the
  order items already written stay in place unchanged. In the session-keyed
  application an order item has no title: it carries the product id, the quantity and
  the price held in the cart entry, and in every store reached by requests from a store
  with an empty session cart that price is the one the product has in the store.
\<close>

theorem c3_order_lines_snapshot:
  "(fst (checkout (Some u) now s) = Inr r \<longrightarrow>
      (\<exists>new. order_items (snd (checkout (Some u) now s)) = order_items s @ new \<and>
             map line_data new =
               spec_lines (next_id (map o_id (orders s))) s (user_cart s u) \<and>
             (\<exists>more. order_items (run rs (snd (checkout (Some u) now s)))
                       = order_items s @ new @ more))) \<and>
   (b_cart t \<noteq> [] \<longrightarrow>
      (\<exists>new. b_order_items (snd (checkout_b fl (Some u) now t)) = b_order_items t @ new \<and>
             map line_data_b new =
               map (\<lambda>e. (next_id (map bo_id (b_orders t)), ce_id e, ce_quantity e, ce_price e))
                 (b_cart t))) \<and>
   (b_cart t = [] \<longrightarrow>
      map (\<lambda>e. (oid, ce_id e, ce_quantity e, ce_price e)) (b_cart (run_b fl rs' t))
        = spec_lines_b oid (run_b fl rs' t))"
proof -
  have app: "\<exists>new. order_items (snd (checkout (Some u) now s)) = order_items s @ new \<and>
                   map line_data new =
                     spec_lines (next_id (map o_id (orders s))) s (user_cart s u) \<and>
                   (\<exists>more. order_items (run rs (snd (checkout (Some u) now s)))
                             = order_items s @ new @ more)"
    if ok: "fst (checkout (Some u) now s) = Inr r"
  proof -
    from checkout_lines [OF ok] obtain new where
      new: "order_items (snd (checkout (Some u) now s)) = order_items s @ new"
      and lines: "map line_data new =
                    spec_lines (next_id (map o_id (orders s))) s (user_cart s u)"
      by blast
    obtain more where
      "order_items (run rs (snd (checkout (Some u) now s)))
         = order_items (snd (checkout (Some u) now s)) @ more"
      using run_order_items_grow by blast
    then have "order_items (run rs (snd (checkout (Some u) now s))) = order_items s @ new @ more"
      using new by simp
    then show ?thesis using new lines by blast
  qed
  have session: "\<exists>new. b_order_items (snd (checkout_b fl (Some u) now t)) = b_order_items t @ new \<and>
                   map line_data_b new =
                     map (\<lambda>e. (next_id (map bo_id (b_orders t)), ce_id e, ce_quantity e, ce_price e))
                       (b_cart t)"
    if "b_cart t \<noteq> []"
  proof -
    let ?oid = "next_id (map bo_id (b_orders t))"
    let ?t1 = "t\<lparr>b_orders := b_orders t @
                   [\<lparr>bo_id = ?oid, bo_user_id = u, bo_total = cart_sum fl (b_cart t),
                     bo_created_at = now\<rparr>]\<rparr>"
    from add_order_items_lines [of ?oid "b_cart t" ?t1] obtain new where
      "b_order_items (add_order_items ?oid (b_cart t) ?t1) = b_order_items ?t1 @ new"
      "map line_data_b new = map (\<lambda>e. (?oid, ce_id e, ce_quantity e, ce_price e)) (b_cart t)"
      by blast
    then show ?thesis using that
      by (simp add: checkout_b_def login_required_def Let_def)
  qed
  have priced: "map (\<lambda>e. (oid, ce_id e, ce_quantity e, ce_price e)) (b_cart (run_b fl rs' t))
                  = spec_lines_b oid (run_b fl rs' t)"
    if "b_cart t = []"
  proof -
    have "cart_priced t" using that by (simp add: cart_priced_def)
    then have "cart_priced (run_b fl rs' t)" by (rule cart_priced_run)
    then show ?thesis by (rule cart_priced_lines)
  qed
  show ?thesis using app session priced by blast
qed

theorem c3_order_lines_snapshot_witness:
  "fst (checkout (Some 2) 9 db_mixed) = Inr (Redirect ''orders'') \<and>
   b_cart store_bottle_cart \<noteq> [] \<and>
   b_cart store_listed_b = [] \<and>
   (\<exists>new. order_items (snd (checkout (Some 2) 9 db_mixed)) = order_items db_mixed @ new \<and>
          map line_data new = [(1, 1, ''Bottle'', 10, 1)] \<and>
          (\<exists>more. order_items (run later_requests (snd (checkout (Some 2) 9 db_mixed)))
                    = order_items db_mixed @ new @ more)) \<and>
   (\<exists>new. b_order_items (snd (checkout_b int_ops (Some 2) 9 store_bottle_cart))
            = b_order_items store_bottle_cart @ new \<and>
          map line_data_b new = [(1, 1, 1, 10)]) \<and>
   spec_lines_b 1 (run_b int_ops [AddToCart 1] store_listed_b) = [(1, 1, 1, 10)]"
proof -
  have h1: "fst (checkout (Some 2) 9 db_mixed) = Inr (Redirect ''orders'')"
    by code_simp
  have h2: "b_cart store_bottle_cart \<noteq> []"
    by code_simp
  have h3: "b_cart store_listed_b = []"
    by code_simp
  have v1: "spec_lines (next_id (map o_id (orders db_mixed))) db_mixed (user_cart db_mixed 2)
              = [(1, 1, ''Bottle'', 10, 1)]"
    by code_simp
  have v2: "map (\<lambda>e. (next_id (map bo_id (b_orders store_bottle_cart)), ce_id e, ce_quantity e,
                       ce_price e)) (b_cart store_bottle_cart) = [(1, 1, 1, 10)]"
    by code_simp
  have v3: "map (\<lambda>e. (1::nat, ce_id e, ce_quantity e, ce_price e))
              (b_cart (run_b int_ops [AddToCart 1] store_listed_b)) = [(1, 1, 1, 10)]"
    by code_simp
  from c3_order_lines_snapshot
    [of 2 9 db_mixed "Redirect ''orders''" later_requests store_bottle_cart int_ops]
    h1 h2 v1 v2
  have a: "(\<exists>new. order_items (snd (checkout (Some 2) 9 db_mixed)) = order_items db_mixed @ new \<and>
          map line_data new = [(1, 1, ''Bottle'', 10, 1)] \<and>
          (\<exists>more. order_items (run later_requests (snd (checkout (Some 2) 9 db_mixed)))
                    = order_items db_mixed @ new @ more)) \<and>
   (\<exists>new. b_order_items (snd (checkout_b int_ops (Some 2) 9 store_bottle_cart))
            = b_order_items store_bottle_cart @ new \<and>
          map line_data_b new = [(1, 1, 1, 10)])"
    by simp
  from c3_order_lines_snapshot [of 2 9 db_mixed "Redirect ''orders''" later_requests store_listed_b int_ops 1 "[AddToCart 1]"]
    h3 v3
  have b: "spec_lines_b 1 (run_b int_ops [AddToCart 1] store_listed_b) = [(1, 1, 1, 10)]"
    by simp
  show ?thesis using h1 h2 h3 a b by blast
qed

text \<open>
  The claim as the specification words it fails in the session-keyed application. A
  bottle and a jar are listed at the same price in two stores and put into the cart;
  checkout writes the same order item in both: nothing of the product's name is kept
  in it. Its price is the one the cart entry has carried since the product was added.
\<close>

theorem c3_no_title_counterexample:
  "map bp_name (b_products store_bottle_cart) = [''Bottle''] \<and>
   map bp_name (b_products store_jar_cart) = [''Jar''] \<and>
   fst (checkout_b int_ops (Some 2) 9 store_bottle_cart) = Inr (Redirected ''orders'') \<and>
   fst (checkout_b int_ops (Some 2) 9 store_jar_cart) = Inr (Redirected ''orders'') \<and>
   b_order_items (snd (checkout_b int_ops (Some 2) 9 store_bottle_cart)) =
     [\<lparr>boi_id = 1, boi_order_id = 1, boi_product_id = 1, boi_quantity = 1, boi_price = 10\<rparr>] \<and>
   b_order_items (snd (checkout_b int_ops (Some 2) 9 store_jar_cart)) =
     [\<lparr>boi_id = 1, boi_order_id = 1, boi_product_id = 1, boi_quantity = 1, boi_price = 10\<rparr>]"
  by code_simp

end
